theory Spec2Isabelle
  imports Main "HOL-Library.Sublist" "HOL-Library.AList"
begin

section \<open>Python values and exceptions\<close>

text \<open>
  The values that flow through the server are what \<^verbatim>\<open>response.json()\<close> returns and what
  the tools build from it: \<^verbatim>\<open>None\<close>, booleans, integers, strings, lists and dictionaries.
  A dictionary is an association list in insertion order. JSON numbers with a fraction
  (Python floats) are left out of the embedding. A string is a list of characters, read
  as code points below 256.
\<close>

datatype json =
    JNull
  | JBool bool
  | JInt int
  | JStr string
  | JArr "json list"
  | JObj "(string \<times> json) list"

text \<open>
  The exception classes that the three modules can raise. All of them are subclasses of
  Python's \<^verbatim>\<open>Exception\<close>; \<^verbatim>\<open>JSONDecodeError\<close> is what \<^verbatim>\<open>response.json()\<close> raises on a body
  that is not JSON. An exception value carries its class and the text of \<^verbatim>\<open>str(e)\<close>.
\<close>

datatype exn_class = ValueError | APIError | JSONDecodeError | AttributeError | TypeError

datatype exn = Exn exn_class string

fun exn_cls :: "exn \<Rightarrow> exn_class" where
  "exn_cls (Exn c m) = c"

fun exn_str :: "exn \<Rightarrow> string" where
  "exn_str (Exn c m) = m"

fun is_Exception :: "exn_class \<Rightarrow> bool" where
  "is_Exception ValueError = True"
| "is_Exception APIError = True"
| "is_Exception JSONDecodeError = True"
| "is_Exception AttributeError = True"
| "is_Exception TypeError = True"

definition bind_e :: "exn + 'a \<Rightarrow> ('a \<Rightarrow> exn + 'b) \<Rightarrow> exn + 'b" where
  "bind_e r f = (case r of Inl e \<Rightarrow> Inl e | Inr v \<Rightarrow> f v)"

fun map_e :: "('a \<Rightarrow> exn + 'b) \<Rightarrow> 'a list \<Rightarrow> exn + 'b list" where
  "map_e f [] = Inr []"
| "map_e f (x # xs) =
     (case f x of Inl e \<Rightarrow> Inl e
      | Inr y \<Rightarrow> (case map_e f xs of Inl e \<Rightarrow> Inl e | Inr ys \<Rightarrow> Inr (y # ys)))"

subsection \<open>Built-in operations of Python used by the tools\<close>

fun type_name :: "json \<Rightarrow> string" where
  "type_name JNull = ''NoneType''"
| "type_name (JBool b) = ''bool''"
| "type_name (JInt i) = ''int''"
| "type_name (JStr s) = ''str''"
| "type_name (JArr xs) = ''list''"
| "type_name (JObj kvs) = ''dict''"

definition no_attribute :: "json \<Rightarrow> string \<Rightarrow> exn" where
  "no_attribute v a =
     Exn AttributeError ([CHR 0x27] @ type_name v @ [CHR 0x27] @ '' object has no attribute ''
       @ [CHR 0x27] @ a @ [CHR 0x27])"

text \<open>Truth value of an object, as tested by \<^verbatim>\<open>if x\<close>, \<^verbatim>\<open>not x\<close> and \<^verbatim>\<open>x or y\<close>.\<close>

fun truthy :: "json \<Rightarrow> bool" where
  "truthy JNull = False"
| "truthy (JBool b) = b"
| "truthy (JInt i) = (i \<noteq> 0)"
| "truthy (JStr s) = (s \<noteq> [])"
| "truthy (JArr xs) = (xs \<noteq> [])"
| "truthy (JObj kvs) = (kvs \<noteq> [])"

text \<open>\<^verbatim>\<open>x.get(key, default)\<close>: only a dictionary has the method.\<close>

fun py_get :: "json \<Rightarrow> string \<Rightarrow> json \<Rightarrow> exn + json" where
  "py_get (JObj kvs) k d = Inr (case map_of kvs k of None \<Rightarrow> d | Some v \<Rightarrow> v)"
| "py_get v k d = Inl (no_attribute v ''get'')"

text \<open>
  \<^verbatim>\<open>for x in v\<close>: a list yields its elements, a dictionary its keys, a string its
  characters; the other values are not iterable.
\<close>

fun py_iter :: "json \<Rightarrow> exn + json list" where
  "py_iter (JArr xs) = Inr xs"
| "py_iter (JObj kvs) = Inr (map (\<lambda>kv. JStr (fst kv)) kvs)"
| "py_iter (JStr s) = Inr (map (\<lambda>c. JStr [c]) s)"
| "py_iter v =
     Inl (Exn TypeError ([CHR 0x27] @ type_name v @ [CHR 0x27] @ '' object is not iterable''))"

text \<open>
  \<^verbatim>\<open>str.strip()\<close> removes white space at both ends. Below code point 256 the white space
  characters of Python are 9 to 13, 28 to 32, 133 and 160.
\<close>

definition is_space :: "char \<Rightarrow> bool" where
  "is_space c = (let n = (of_char c :: nat) in
     (9 \<le> n \<and> n \<le> 13) \<or> (28 \<le> n \<and> n \<le> 32) \<or> n = 133 \<or> n = 160)"

definition strip :: "string \<Rightarrow> string" where
  "strip s = rev (dropWhile is_space (rev (dropWhile is_space s)))"

fun py_strip :: "json \<Rightarrow> exn + json" where
  "py_strip (JStr s) = Inr (JStr (strip s))"
| "py_strip v = Inl (no_attribute v ''strip'')"

text \<open>
  \<^verbatim>\<open>str.lower()\<close>: below code point 256 the upper-case letters are A to Z and 192 to 222
  without 215, each 32 below its lower-case letter.
\<close>

definition lower_char :: "char \<Rightarrow> char" where
  "lower_char c = (let n = (of_char c :: nat) in
     if (65 \<le> n \<and> n \<le> 90) \<or> (192 \<le> n \<and> n \<le> 222 \<and> n \<noteq> 215)
     then char_of (n + 32) else c)"

definition lower :: "string \<Rightarrow> string" where
  "lower s = map lower_char s"

fun py_lower :: "json \<Rightarrow> exn + json" where
  "py_lower (JStr s) = Inr (JStr (lower s))"
| "py_lower v = Inl (no_attribute v ''lower'')"

text \<open>\<^verbatim>\<open>str(n)\<close> of an integer: decimal digits, with a minus sign below zero.\<close>

fun str_nat :: "nat \<Rightarrow> string" where
  "str_nat n =
     (if n < 10 then [char_of (48 + n)] else str_nat (n div 10) @ [char_of (48 + n mod 10)])"

declare str_nat.simps [simp del]

definition str_int :: "int \<Rightarrow> string" where
  "str_int i = (if i < 0 then CHR ''-'' # str_nat (nat (- i)) else str_nat (nat i))"

text \<open>
  \<^verbatim>\<open>repr(s)\<close> of a string: single quotes, unless the string holds a single quote and no
  double quote; the quote and the backslash are escaped, as are tab, newline and
  carriage return; a character that is not printable is written \<^verbatim>\<open>\xhh\<close>.
\<close>

definition hex_digit :: "nat \<Rightarrow> char" where
  "hex_digit d = (if d < 10 then char_of (48 + d) else char_of (87 + d))"

definition repr_char :: "char \<Rightarrow> char \<Rightarrow> string" where
  "repr_char q c = (let n = (of_char c :: nat) in
     if c = q \<or> n = 92 then [CHR 0x5C, c]
     else if n = 9 then [CHR 0x5C, CHR ''t'']
     else if n = 10 then [CHR 0x5C, CHR ''n'']
     else if n = 13 then [CHR 0x5C, CHR ''r'']
     else if n < 32 \<or> (127 \<le> n \<and> n \<le> 160) \<or> n = 173
       then [CHR 0x5C, CHR ''x'', hex_digit (n div 16), hex_digit (n mod 16)]
     else [c])"

definition repr_str :: "string \<Rightarrow> string" where
  "repr_str s = (let q = (if CHR 0x27 \<in> set s \<and> CHR 0x22 \<notin> set s then CHR 0x22 else CHR 0x27)
     in [q] @ concat (map (repr_char q) s) @ [q])"

fun join :: "string \<Rightarrow> string list \<Rightarrow> string" where
  "join sep [] = []"
| "join sep [x] = x"
| "join sep (x # y # ys) = x @ sep @ join sep (y # ys)"

fun py_repr :: "json \<Rightarrow> string" where
  "py_repr JNull = ''None''"
| "py_repr (JBool b) = (if b then ''True'' else ''False'')"
| "py_repr (JInt i) = str_int i"
| "py_repr (JStr s) = repr_str s"
| "py_repr (JArr xs) = ''['' @ join '', '' (map py_repr xs) @ '']''"
| "py_repr (JObj kvs) =
     ''{'' @ join '', '' (map (\<lambda>(k, v). repr_str k @ '': '' @ py_repr v) kvs) @ ''}''"

text \<open>\<^verbatim>\<open>str(v)\<close>, which an f-string applies to a value: a string is itself.\<close>

fun py_str :: "json \<Rightarrow> string" where
  "py_str (JStr s) = s"
| "py_str v = py_repr v"

section \<open>config.py: the settings\<close>

text \<open>
  The process environment is a partial map from names to values; \<^verbatim>\<open>os.getenv\<close> reads it.
  Each property reads the environment anew.
\<close>

type_synonym environ = "string \<rightharpoonup> string"

definition getenv :: "environ \<Rightarrow> string \<Rightarrow> string \<Rightarrow> string" where
  "getenv env name dflt = (case env name of None \<Rightarrow> dflt | Some v \<Rightarrow> v)"

definition settings_api_base_url :: "environ \<Rightarrow> string" where
  "settings_api_base_url env = getenv env ''API_BASE_URL'' ''https://api.example.com/v1''"

definition api_key_required :: string where
  "api_key_required =
     ''API_KEY environment variable is required. '' @
     ''Get your API key from [YOUR_API_PROVIDER] and add it to your .env file.''"

definition settings_api_key :: "environ \<Rightarrow> exn + string" where
  "settings_api_key env =
     (case env ''API_KEY'' of
        None \<Rightarrow> Inl (Exn ValueError api_key_required)
      | Some key \<Rightarrow> if key = [] then Inl (Exn ValueError api_key_required) else Inr key)"

section \<open>api_service.py: the client\<close>

text \<open>
  An \<^verbatim>\<open>httpx.AsyncClient\<close> is a handle, numbered in the order of construction. The state
  of the process holds the environment, the module's global \<^verbatim>\<open>_client\<close>, the number of
  handles constructed so far, the handles closed so far, and the requests handed to
  \<^verbatim>\<open>client.request\<close> so far.
\<close>

record request =
  http_method :: string
  url :: string
  params :: "(string \<times> json) list"

record APIClient =
  base_url :: string
  api_key :: string
  client :: "nat option"

record world =
  environ :: environ
  global_client :: "APIClient option"
  handles_made :: nat
  closed :: "nat list"
  sent :: "request list"

text \<open>
  What the network answers to a request, given the requests sent before it: a transport
  failure (an \<^verbatim>\<open>httpx.RequestError\<close> with its text), or a response with its status code,
  its body text, and what decoding the body as JSON gives (the decoder's error text or
  the value).
\<close>

datatype outcome =
    RequestError string
  | Response int string "string + json"

type_synonym network = "request list \<Rightarrow> request \<Rightarrow> outcome"

text \<open>
  \<^verbatim>\<open>Response.raise_for_status()\<close> of httpx raises \<^verbatim>\<open>HTTPStatusError\<close> unless the status is
  a success, 200 to 299.
\<close>

definition raise_for_status :: "int \<Rightarrow> bool" where
  "raise_for_status st = (\<not> (200 \<le> st \<and> st \<le> 299))"

definition APIClient_init :: "environ \<Rightarrow> exn + APIClient" where
  "APIClient_init env =
     (let b = settings_api_base_url env in
      case settings_api_key env of
        Inl e \<Rightarrow> Inl e
      | Inr k \<Rightarrow> Inr \<lparr>base_url = b, api_key = k, client = None\<rparr>)"

definition APIClient_get_client :: "APIClient \<Rightarrow> world \<Rightarrow> nat \<times> APIClient \<times> world" where
  "APIClient_get_client c w =
     (case client c of
        None \<Rightarrow>
          (handles_made w, c\<lparr>client := Some (handles_made w)\<rparr>,
           w\<lparr>handles_made := Suc (handles_made w)\<rparr>)
      | Some h \<Rightarrow> (h, c, w))"

definition APIClient_close :: "APIClient \<Rightarrow> world \<Rightarrow> APIClient \<times> world" where
  "APIClient_close c w =
     (case client c of
        None \<Rightarrow> (c, w)
      | Some h \<Rightarrow> (c\<lparr>client := None\<rparr>, w\<lparr>closed := closed w @ [h]\<rparr>))"

definition lstrip_slash :: "string \<Rightarrow> string" where
  "lstrip_slash s = dropWhile (\<lambda>c. c = CHR ''/'') s"

text \<open>The request that \<^verbatim>\<open>_make_request\<close> hands to the handle.\<close>

definition build_request ::
  "APIClient \<Rightarrow> string \<Rightarrow> string \<Rightarrow> (string \<times> json) list option \<Rightarrow> request" where
  "build_request c m endpoint kw =
     \<lparr>http_method = m,
      url = base_url c @ ''/'' @ lstrip_slash endpoint,
      params = AList.update ''api_key'' (JStr (api_key c))
                 (case kw of None \<Rightarrow> [] | Some p \<Rightarrow> p)\<rparr>"

definition status_error :: "string \<Rightarrow> int \<Rightarrow> string \<Rightarrow> exn" where
  "status_error endpoint st body =
     (if st = 404 then Exn APIError (''Not found: '' @ endpoint)
      else if st = 401 then Exn APIError ''Invalid API key or authentication failed''
      else if st = 429 then Exn APIError ''Rate limit exceeded - try again later''
      else Exn APIError (''API error '' @ str_int st @ '': '' @ body))"

text \<open>
  The \<^verbatim>\<open>try\<close> block of \<^verbatim>\<open>_make_request\<close> and its two handlers: what the caller gets for
  each answer of the network.
\<close>

definition request_result :: "string \<Rightarrow> outcome \<Rightarrow> exn + json" where
  "request_result endpoint out =
     (case out of
        RequestError msg \<Rightarrow> Inl (Exn APIError (''Request failed: '' @ msg))
      | Response st body js \<Rightarrow>
          if raise_for_status st then Inl (status_error endpoint st body)
          else (case js of Inl msg \<Rightarrow> Inl (Exn JSONDecodeError msg) | Inr v \<Rightarrow> Inr v))"

definition APIClient_make_request ::
  "network \<Rightarrow> APIClient \<Rightarrow> world \<Rightarrow> string \<Rightarrow> string \<Rightarrow> (string \<times> json) list option
     \<Rightarrow> (exn + json) \<times> APIClient \<times> world" where
  "APIClient_make_request net c w m endpoint kw =
     (case APIClient_get_client c w of
        (h, c1, w1) \<Rightarrow>
          (request_result endpoint (net (sent w1) (build_request c1 m endpoint kw)),
           c1,
           w1\<lparr>sent := sent w1 @ [build_request c1 m endpoint kw]\<rparr>))"

definition APIClient_search ::
  "network \<Rightarrow> APIClient \<Rightarrow> world \<Rightarrow> string \<Rightarrow> int \<Rightarrow> (exn + json) \<times> APIClient \<times> world" where
  "APIClient_search net c w query limit =
     APIClient_make_request net c w ''GET'' ''/search''
       (Some [(''q'', JStr query), (''limit'', JInt (min limit 50))])"

definition APIClient_get_details ::
  "network \<Rightarrow> APIClient \<Rightarrow> world \<Rightarrow> string \<Rightarrow> (exn + json) \<times> APIClient \<times> world" where
  "APIClient_get_details net c w item_id =
     APIClient_make_request net c w ''GET'' (''/items/'' @ item_id) None"

definition APIClient_list_categories ::
  "network \<Rightarrow> APIClient \<Rightarrow> world \<Rightarrow> (exn + json) \<times> APIClient \<times> world" where
  "APIClient_list_categories net c w = APIClient_make_request net c w ''GET'' ''/categories'' None"

definition APIClient_get_popular_items ::
  "network \<Rightarrow> APIClient \<Rightarrow> world \<Rightarrow> int \<Rightarrow> (exn + json) \<times> APIClient \<times> world" where
  "APIClient_get_popular_items net c w limit =
     APIClient_make_request net c w ''GET'' ''/popular'' (Some [(''limit'', JInt (min limit 50))])"

definition APIClient_get_items_by_category ::
  "network \<Rightarrow> APIClient \<Rightarrow> world \<Rightarrow> json \<Rightarrow> int \<Rightarrow> (exn + json) \<times> APIClient \<times> world" where
  "APIClient_get_items_by_category net c w category_id limit =
     APIClient_make_request net c w ''GET'' (''/categories/'' @ py_str category_id @ ''/items'')
       (Some [(''limit'', JInt (min limit 50))])"

text \<open>The module's global instance, created on first demand and cleared on shutdown.\<close>

definition get_api_client :: "world \<Rightarrow> (exn + APIClient) \<times> world" where
  "get_api_client w =
     (case global_client w of
        None \<Rightarrow>
          (case APIClient_init (environ w) of
             Inl e \<Rightarrow> (Inl e, w)
           | Inr c \<Rightarrow> (Inr c, w\<lparr>global_client := Some c\<rparr>))
      | Some c \<Rightarrow> (Inr c, w))"

definition cleanup_api_client :: "world \<Rightarrow> world" where
  "cleanup_api_client w =
     (case global_client w of
        None \<Rightarrow> w
      | Some c \<Rightarrow> (case APIClient_close c w of (c1, w1) \<Rightarrow> w1\<lparr>global_client := None\<rparr>))"

section \<open>main.py: the tools\<close>

text \<open>
  A tool obtains the shared client and calls its methods. The object the global names is
  the one the method works on, so what the method does to it is stored back under the
  global.
\<close>

definition store_client :: "APIClient \<Rightarrow> world \<Rightarrow> world" where
  "store_client c w = w\<lparr>global_client := Some c\<rparr>"

text \<open>
  \<^verbatim>\<open>try: ... except Exception as e: return handler(e)\<close> around a body: a result passes,
  an exception of a class below \<^verbatim>\<open>Exception\<close> becomes the handler's value. Logging is
  not modelled.
\<close>

definition except_Exception :: "exn + json \<Rightarrow> (exn \<Rightarrow> json) \<Rightarrow> exn + json" where
  "except_Exception r handler =
     (case r of
        Inr v \<Rightarrow> Inr v
      | Inl e \<Rightarrow> if is_Exception (exn_cls e) then Inr (handler e) else Inl e)"

text \<open>\<^verbatim>\<open>a.get(k1) or a.get(k2)\<close>: the second lookup happens only when the first is falsy.\<close>

definition get_or :: "json \<Rightarrow> string \<Rightarrow> string \<Rightarrow> exn + json" where
  "get_or item k1 k2 =
     bind_e (py_get item k1 JNull) (\<lambda>v. if truthy v then Inr v else py_get item k2 JNull)"

definition get_stripped :: "json \<Rightarrow> string \<Rightarrow> exn + json" where
  "get_stripped item k = bind_e (py_get item k (JStr [])) py_strip"

subsection \<open>search_items\<close>

definition search_item_info :: "json \<Rightarrow> exn + json" where
  "search_item_info item =
     bind_e (py_get item ''id'' JNull) (\<lambda>v_id.
     bind_e (get_or item ''title'' ''name'') (\<lambda>v_title.
     bind_e (get_stripped item ''description'') (\<lambda>v_description.
     bind_e (py_get item ''url'' JNull) (\<lambda>v_url.
     bind_e (py_get item ''tags'' (JArr [])) (\<lambda>v_tags.
     Inr (JObj [(''id'', v_id), (''title'', v_title), (''description'', v_description),
                (''url'', v_url), (''tags'', v_tags)]))))))"

definition search_items_reshape :: "json \<Rightarrow> exn + json" where
  "search_items_reshape result =
     bind_e (py_get result ''results'' (JArr [])) (\<lambda>rs.
     bind_e (py_iter rs) (\<lambda>xs.
     bind_e (map_e search_item_info xs) (\<lambda>items. Inr (JArr items))))"

definition search_items_body :: "network \<Rightarrow> world \<Rightarrow> string \<Rightarrow> int \<Rightarrow> (exn + json) \<times> world" where
  "search_items_body net w query limit =
     (case get_api_client w of
        (Inl e, w1) \<Rightarrow> (Inl e, w1)
      | (Inr c, w1) \<Rightarrow>
          (case APIClient_search net c w1 query limit of
             (r, c2, w2) \<Rightarrow> (bind_e r search_items_reshape, store_client c2 w2)))"

definition error_list :: "string \<Rightarrow> exn \<Rightarrow> json" where
  "error_list pre e = JArr [JObj [(''error'', JStr (pre @ exn_str e))]]"

definition error_dict :: "string \<Rightarrow> exn \<Rightarrow> json" where
  "error_dict pre e = JObj [(''error'', JStr (pre @ exn_str e))]"

definition search_items :: "network \<Rightarrow> world \<Rightarrow> string \<Rightarrow> int \<Rightarrow> (exn + json) \<times> world" where
  "search_items net w query limit =
     (case search_items_body net w query limit of
        (r, w1) \<Rightarrow> (except_Exception r (error_list ''Search failed: ''), w1))"

subsection \<open>get_item_details\<close>

definition details :: "json \<Rightarrow> exn + json" where
  "details item =
     bind_e (py_get item ''id'' JNull) (\<lambda>v_id.
     bind_e (get_or item ''title'' ''name'') (\<lambda>v_title.
     bind_e (get_stripped item ''description'') (\<lambda>v_description.
     bind_e (get_stripped item ''full_description'') (\<lambda>v_full.
     bind_e (py_get item ''url'' JNull) (\<lambda>v_url.
     bind_e (get_or item ''created_at'' ''date'') (\<lambda>v_created.
     bind_e (get_or item ''author'' ''creator'') (\<lambda>v_author.
     bind_e (py_get item ''tags'' (JArr [])) (\<lambda>v_tags.
     bind_e (py_get item ''category'' JNull) (\<lambda>v_category.
     bind_e (py_get item ''metadata'' (JObj [])) (\<lambda>v_metadata.
     Inr (JObj [(''id'', v_id), (''title'', v_title), (''description'', v_description),
                (''full_description'', v_full), (''url'', v_url),
                (''created_date'', v_created), (''author'', v_author), (''tags'', v_tags),
                (''category'', v_category), (''metadata'', v_metadata)])))))))))))"

definition get_item_details_body :: "network \<Rightarrow> world \<Rightarrow> string \<Rightarrow> (exn + json) \<times> world" where
  "get_item_details_body net w item_id =
     (case get_api_client w of
        (Inl e, w1) \<Rightarrow> (Inl e, w1)
      | (Inr c, w1) \<Rightarrow>
          (case APIClient_get_details net c w1 item_id of
             (r, c2, w2) \<Rightarrow> (bind_e r details, store_client c2 w2)))"

definition get_item_details :: "network \<Rightarrow> world \<Rightarrow> string \<Rightarrow> (exn + json) \<times> world" where
  "get_item_details net w item_id =
     (case get_item_details_body net w item_id of
        (r, w1) \<Rightarrow> (except_Exception r (error_dict ''Failed to get item details: ''), w1))"

subsection \<open>list_categories\<close>

definition category_info :: "json \<Rightarrow> exn + json" where
  "category_info category =
     bind_e (py_get category ''id'' JNull) (\<lambda>v_id.
     bind_e (py_get category ''name'' JNull) (\<lambda>v_name.
     bind_e (py_get category ''description'' JNull) (\<lambda>v_description.
     bind_e (get_or category ''count'' ''items'') (\<lambda>v_count.
     bind_e (py_get category ''icon'' JNull) (\<lambda>v_icon.
     Inr (JObj [(''id'', v_id), (''name'', v_name), (''description'', v_description),
                (''item_count'', v_count), (''icon'', v_icon)]))))))"

definition list_categories_reshape :: "json \<Rightarrow> exn + json" where
  "list_categories_reshape result =
     bind_e (py_get result ''results'' (JArr [])) (\<lambda>rs.
     bind_e (py_iter rs) (\<lambda>xs.
     bind_e (map_e category_info xs) (\<lambda>categories. Inr (JArr categories))))"

definition list_categories_body :: "network \<Rightarrow> world \<Rightarrow> (exn + json) \<times> world" where
  "list_categories_body net w =
     (case get_api_client w of
        (Inl e, w1) \<Rightarrow> (Inl e, w1)
      | (Inr c, w1) \<Rightarrow>
          (case APIClient_list_categories net c w1 of
             (r, c2, w2) \<Rightarrow> (bind_e r list_categories_reshape, store_client c2 w2)))"

definition list_categories :: "network \<Rightarrow> world \<Rightarrow> (exn + json) \<times> world" where
  "list_categories net w =
     (case list_categories_body net w of
        (r, w1) \<Rightarrow> (except_Exception r (error_list ''Failed to list categories: ''), w1))"

subsection \<open>get_popular_items\<close>

text \<open>
  The loop over the listing: the first category whose lower-cased name equals the
  lower-cased argument gives its id and ends the loop; without one the id stays \<^verbatim>\<open>None\<close>.
\<close>

fun find_category :: "json list \<Rightarrow> string \<Rightarrow> exn + json" where
  "find_category [] category = Inr JNull"
| "find_category (cat # cats) category =
     bind_e (py_get cat ''name'' (JStr [])) (\<lambda>v_name.
     bind_e (py_lower v_name) (\<lambda>v_lower.
       if v_lower = JStr (lower category) then py_get cat ''id'' JNull
       else find_category cats category))"

definition popular_item_info :: "json \<Rightarrow> exn + json" where
  "popular_item_info item =
     bind_e (py_get item ''id'' JNull) (\<lambda>v_id.
     bind_e (get_or item ''title'' ''name'') (\<lambda>v_title.
     bind_e (get_stripped item ''description'') (\<lambda>v_description.
     bind_e (py_get item ''url'' JNull) (\<lambda>v_url.
     bind_e (py_get item ''tags'' (JArr [])) (\<lambda>v_tags.
     bind_e (get_or item ''score'' ''rating'') (\<lambda>v_score.
     Inr (JObj [(''id'', v_id), (''title'', v_title), (''description'', v_description),
                (''url'', v_url), (''tags'', v_tags), (''popularity_score'', v_score)])))))))"

definition popular_reshape :: "json \<Rightarrow> exn + json" where
  "popular_reshape result =
     bind_e (py_get result ''results'' (JArr [])) (\<lambda>rs.
     bind_e (py_iter rs) (\<lambda>xs.
     bind_e (map_e popular_item_info xs) (\<lambda>items. Inr (JArr items))))"

definition category_not_found :: "string \<Rightarrow> json" where
  "category_not_found category =
     JArr [JObj [(''error'', JStr (''Category '' @ [CHR 0x27] @ category @ [CHR 0x27]
                                   @ '' not found''))]]"

definition find_category_id :: "json \<Rightarrow> string \<Rightarrow> exn + json" where
  "find_category_id categories_result category =
     bind_e (py_get categories_result ''results'' (JArr [])) (\<lambda>rs.
     bind_e (py_iter rs) (\<lambda>cats. find_category cats category))"

text \<open>The branch taken when a category is given, and the branch taken otherwise.\<close>

definition popular_in_category ::
  "network \<Rightarrow> APIClient \<Rightarrow> world \<Rightarrow> int \<Rightarrow> string \<Rightarrow> (exn + json) \<times> world" where
  "popular_in_category net c w limit category =
     (case APIClient_list_categories net c w of
        (r, c2, w2) \<Rightarrow>
          (case bind_e r (\<lambda>categories_result. find_category_id categories_result category) of
             Inl e \<Rightarrow> (Inl e, store_client c2 w2)
           | Inr category_id \<Rightarrow>
               if truthy category_id then
                 (case APIClient_get_items_by_category net c2 (store_client c2 w2)
                         category_id limit of
                    (r3, c3, w3) \<Rightarrow> (bind_e r3 popular_reshape, store_client c3 w3))
               else (Inr (category_not_found category), store_client c2 w2)))"

definition popular_general ::
  "network \<Rightarrow> APIClient \<Rightarrow> world \<Rightarrow> int \<Rightarrow> (exn + json) \<times> world" where
  "popular_general net c w limit =
     (case APIClient_get_popular_items net c w limit of
        (r, c2, w2) \<Rightarrow> (bind_e r popular_reshape, store_client c2 w2))"

definition get_popular_items_body ::
  "network \<Rightarrow> world \<Rightarrow> int \<Rightarrow> string option \<Rightarrow> (exn + json) \<times> world" where
  "get_popular_items_body net w limit category =
     (case get_api_client w of
        (Inl e, w1) \<Rightarrow> (Inl e, w1)
      | (Inr c, w1) \<Rightarrow>
          (case category of
             None \<Rightarrow> popular_general net c w1 limit
           | Some name \<Rightarrow>
               if name \<noteq> [] then popular_in_category net c w1 limit name
               else popular_general net c w1 limit))"

definition get_popular_items ::
  "network \<Rightarrow> world \<Rightarrow> int \<Rightarrow> string option \<Rightarrow> (exn + json) \<times> world" where
  "get_popular_items net w limit category =
     (case get_popular_items_body net w limit category of
        (r, w1) \<Rightarrow> (except_Exception r (error_list ''Failed to get popular items: ''), w1))"

text \<open>\<^verbatim>\<open>cleanup\<close>, the shutdown hook of the server, run at exit and again in \<^verbatim>\<open>finally\<close>.\<close>

definition cleanup :: "world \<Rightarrow> world" where
  "cleanup w = cleanup_api_client w"

section \<open>Observations and example inputs\<close>

text \<open>The \<^verbatim>\<open>limit\<close> query parameter of the request sent last.\<close>

definition limit_sent :: "world \<Rightarrow> json option" where
  "limit_sent w = (if sent w = [] then None else map_of (params (last (sent w))) ''limit'')"

text \<open>A request carries the credentials of a client: its base URL and its key.\<close>

definition uses_client :: "APIClient \<Rightarrow> request \<Rightarrow> bool" where
  "uses_client c r =
     (prefix (base_url c @ ''/'') (url r) \<and> map_of (params r) ''api_key'' = Some (JStr (api_key c)))"

text \<open>A process just started with a key in its environment, and networks that answer
  every request alike.\<close>

definition env0 :: environ where
  "env0 = [''API_KEY'' \<mapsto> ''secret'']"

definition world0 :: world where
  "world0 = \<lparr>environ = env0, global_client = None, handles_made = 0, closed = [], sent = []\<rparr>"

definition client0 :: APIClient where
  "client0 = \<lparr>base_url = ''https://api.example.com/v1'', api_key = ''secret'', client = None\<rparr>"

definition net_down :: network where
  "net_down hist r = RequestError ''timed out''"

definition net_status :: "int \<Rightarrow> string \<Rightarrow> network" where
  "net_status st body hist r = Response st body (Inl ''Expecting value'')"

definition net_json :: "json \<Rightarrow> network" where
  "net_json v hist r = Response 200 [] (Inr v)"

text \<open>The pooled handle that the process holds through its global client, if any.\<close>

definition live_handle :: "world \<Rightarrow> nat option" where
  "live_handle w = (case global_client w of None \<Rightarrow> None | Some c \<Rightarrow> client c)"

text \<open>A process whose global client holds an open handle, and processes started without
  a key or with an empty one.\<close>

definition world_live :: world where
  "world_live = \<lparr>environ = env0, global_client = Some (client0\<lparr>client := Some 0\<rparr>),
                 handles_made = 1, closed = [], sent = []\<rparr>"

definition world_no_key :: world where
  "world_no_key = world0\<lparr>environ := Map.empty\<rparr>"

definition world_empty_key :: world where
  "world_empty_key = world0\<lparr>environ := [''API_KEY'' \<mapsto> []]\<rparr>"

text \<open>
  Reading a category listing: the entries under \<^verbatim>\<open>results\<close> when that is a list, whether
  an entry is a dictionary with a string name equal to the argument once both are in
  lower case, and whether no entry of a list is.
\<close>

fun listed :: "json \<Rightarrow> json list" where
  "listed (JObj kvs) = (case map_of kvs ''results'' of Some (JArr cats) \<Rightarrow> cats | _ \<Rightarrow> [])"
| "listed v = []"

fun name_matches :: "json \<Rightarrow> string \<Rightarrow> bool" where
  "name_matches (JObj kvs) category =
     (case map_of kvs ''name'' of Some (JStr n) \<Rightarrow> lower n = lower category | _ \<Rightarrow> False)"
| "name_matches v category = False"

fun none_matches :: "json list \<Rightarrow> string \<Rightarrow> bool" where
  "none_matches [] category = True"
| "none_matches (cat # cats) category =
     (\<not> name_matches cat category \<and> none_matches cats category)"

text \<open>
  A listing of the expected shape: a dictionary whose \<^verbatim>\<open>results\<close>, when present, is a list
  of dictionaries, each with a string for its name or with no name.
\<close>

fun category_entry_ok :: "json \<Rightarrow> bool" where
  "category_entry_ok (JObj kvs) =
     (case map_of kvs ''name'' of None \<Rightarrow> True | Some (JStr n) \<Rightarrow> True | Some v \<Rightarrow> False)"
| "category_entry_ok v = False"

fun entries_ok :: "json list \<Rightarrow> bool" where
  "entries_ok [] = True"
| "entries_ok (cat # cats) = (category_entry_ok cat \<and> entries_ok cats)"

fun listing_ok :: "json \<Rightarrow> bool" where
  "listing_ok (JObj kvs) =
     (case map_of kvs ''results'' of
        None \<Rightarrow> True | Some (JArr cats) \<Rightarrow> entries_ok cats | Some v \<Rightarrow> False)"
| "listing_ok v = False"

text \<open>Example answers of the upstream API.\<close>

definition foo_response :: json where
  "foo_response =
     JObj [(''results'', JArr [JObj [(''id'', JStr ''1''), (''name'', JStr ''Foo'')]])]"

definition listing_food :: json where
  "listing_food =
     JObj [(''results'', JArr [JObj [(''id'', JStr ''c1''), (''name'', JStr ''Food'')]])]"

definition listing_null_name :: json where
  "listing_null_name =
     JObj [(''results'', JArr [JObj [(''id'', JStr ''c1''), (''name'', JNull)]])]"

text \<open>
  A call that starts in one state and ends in another keeps to the credentials of a
  client: the requests it added all carry them, and the global client of the end state
  holds them still.
\<close>

definition keeps_credentials :: "APIClient \<Rightarrow> world \<Rightarrow> world \<Rightarrow> bool" where
  "keeps_credentials c w w1 =
     (take (length (sent w)) (sent w1) = sent w \<and>
      list_all (uses_client c) (drop (length (sent w)) (sent w1)) \<and>
      (case global_client w1 of
         None \<Rightarrow> False
       | Some c1 \<Rightarrow> base_url c1 = base_url c \<and> api_key c1 = api_key c))"

text \<open>A process whose client was built under \<^verbatim>\<open>env0\<close>, and a later environment.\<close>

definition env_changed :: environ where
  "env_changed = [''API_KEY'' \<mapsto> ''other'', ''API_BASE_URL'' \<mapsto> ''http://localhost'']"

section \<open>Facts about the client\<close>

lemma get_client_fields:
  "APIClient_get_client c w = (h, c1, w1) \<Longrightarrow>
     base_url c1 = base_url c \<and> api_key c1 = api_key c \<and> sent w1 = sent w"
  unfolding APIClient_get_client_def by (cases "client c") auto

lemma make_request_unfold:
  "APIClient_make_request net c w m ep kw =
     (request_result ep (net (sent w) (build_request c m ep kw)),
      fst (snd (APIClient_get_client c w)),
      (snd (snd (APIClient_get_client c w)))\<lparr>sent := sent w @ [build_request c m ep kw]\<rparr>)"
proof -
  obtain h c1 w1 where g: "APIClient_get_client c w = (h, c1, w1)"
    using prod_cases3 by blast
  have b: "build_request c1 m ep kw = build_request c m ep kw"
    using get_client_fields[OF g] by (simp add: build_request_def)
  have s: "sent w1 = sent w"
    using get_client_fields[OF g] by simp
  show ?thesis
    by (simp only: APIClient_make_request_def g prod.case b s fst_conv snd_conv)
qed

lemma make_request_sent:
  "sent (snd (snd (APIClient_make_request net c w m ep kw))) = sent w @ [build_request c m ep kw]"
  by (simp add: make_request_unfold)

lemma make_request_result:
  "fst (APIClient_make_request net c w m ep kw) =
     request_result ep (net (sent w) (build_request c m ep kw))"
  by (simp add: make_request_unfold)

lemma limit_sent_make_request:
  "limit_sent (snd (snd (APIClient_make_request net c w m ep kw))) =
     map_of (params (build_request c m ep kw)) ''limit''"
  by (simp add: limit_sent_def make_request_sent)

lemma limit_of_search:
  "map_of (params (build_request c m ep (Some [(''q'', JStr q), (''limit'', JInt n)]))) ''limit''
     = Some (JInt n)"
  by (simp add: build_request_def)

lemma limit_of_only:
  "map_of (params (build_request c m ep (Some [(''limit'', JInt n)]))) ''limit'' = Some (JInt n)"
  by (simp add: build_request_def)

section \<open>The result-count limit\<close>

text \<open>
  Claim C1. A result-count limit above 50 given to \<^verbatim>\<open>search\<close>, \<^verbatim>\<open>get_popular_items\<close> or
  \<^verbatim>\<open>get_items_by_category\<close> goes upstream as exactly 50 in the \<^verbatim>\<open>limit\<close> query parameter
  of the request; a limit of at most 50 goes upstream as it is.
\<close>

theorem limit_clamped_to_50:
  "(50 < limit \<longrightarrow>
      limit_sent (snd (snd (APIClient_search net c w query limit))) = Some (JInt 50) \<and>
      limit_sent (snd (snd (APIClient_get_popular_items net c w limit))) = Some (JInt 50) \<and>
      limit_sent (snd (snd (APIClient_get_items_by_category net c w category_id limit)))
        = Some (JInt 50)) \<and>
   (limit \<le> 50 \<longrightarrow>
      limit_sent (snd (snd (APIClient_search net c w query limit))) = Some (JInt limit) \<and>
      limit_sent (snd (snd (APIClient_get_popular_items net c w limit))) = Some (JInt limit) \<and>
      limit_sent (snd (snd (APIClient_get_items_by_category net c w category_id limit)))
        = Some (JInt limit))"
  by (simp add: APIClient_search_def APIClient_get_popular_items_def
      APIClient_get_items_by_category_def limit_sent_make_request limit_of_search limit_of_only)

theorem limit_clamped_to_50_witness:
  "limit_sent (snd (snd (APIClient_search net_down client0 world0 ''coffee'' 200)))
     = Some (JInt 50) \<and>
   limit_sent (snd (snd (APIClient_search net_down client0 world0 ''coffee'' 5)))
     = Some (JInt 5)"
  using limit_clamped_to_50 [of 200 net_down client0 world0 "''coffee''" JNull]
        limit_clamped_to_50 [of 5 net_down client0 world0 "''coffee''" JNull]
  by simp

text \<open>
  Claim C9. The clamp has one side only. For every limit of at most 50, zero and the
  negative integers included, each of the three methods sends exactly one request, and
  that request carries the caller's limit as it is; nothing checks the limit or bounds
  it from below.
\<close>

theorem limit_forwarded_unchanged:
  "limit \<le> 50 \<Longrightarrow>
     sent (snd (snd (APIClient_search net c w query limit))) =
       sent w @ [\<lparr>http_method = ''GET'', url = base_url c @ ''/search'',
                  params = [(''q'', JStr query), (''limit'', JInt limit),
                            (''api_key'', JStr (api_key c))]\<rparr>] \<and>
     sent (snd (snd (APIClient_get_popular_items net c w limit))) =
       sent w @ [\<lparr>http_method = ''GET'', url = base_url c @ ''/popular'',
                  params = [(''limit'', JInt limit), (''api_key'', JStr (api_key c))]\<rparr>] \<and>
     sent (snd (snd (APIClient_get_items_by_category net c w category_id limit))) =
       sent w @ [\<lparr>http_method = ''GET'',
                  url = base_url c @ ''/categories/'' @ py_str category_id @ ''/items'',
                  params = [(''limit'', JInt limit), (''api_key'', JStr (api_key c))]\<rparr>]"
  by (simp add: APIClient_search_def APIClient_get_popular_items_def
      APIClient_get_items_by_category_def make_request_sent build_request_def lstrip_slash_def)

theorem limit_forwarded_unchanged_witness:
  "sent (snd (snd (APIClient_search net_down client0 world0 ''coffee'' (- 3)))) =
     [\<lparr>http_method = ''GET'', url = ''https://api.example.com/v1/search'',
       params = [(''q'', JStr ''coffee''), (''limit'', JInt (- 3)),
                 (''api_key'', JStr ''secret'')]\<rparr>] \<and>
   sent (snd (snd (APIClient_get_popular_items net_down client0 world0 0))) =
     [\<lparr>http_method = ''GET'', url = ''https://api.example.com/v1/popular'',
       params = [(''limit'', JInt 0), (''api_key'', JStr ''secret'')]\<rparr>]"
  using limit_forwarded_unchanged [of "- 3" net_down client0 world0 "''coffee''" JNull]
        limit_forwarded_unchanged [of 0 net_down client0 world0 "''coffee''" JNull]
  by (simp add: client0_def world0_def)

section \<open>The pooled handle and the shutdown hook\<close>

lemma close_no_handle: "client c = None \<Longrightarrow> APIClient_close c w = (c, w)"
  by (simp add: APIClient_close_def)

lemma close_clears: "client (fst (APIClient_close c w)) = None"
  by (cases "client c") (simp_all add: APIClient_close_def)

lemma cleanup_global: "global_client (cleanup_api_client w) = None"
proof (cases "global_client w")
  case None
  then show ?thesis by (simp add: cleanup_api_client_def)
next
  case (Some c)
  then show ?thesis
    by (cases "APIClient_close c w") (simp add: cleanup_api_client_def)
qed

text \<open>
  Claim C7. \<^verbatim>\<open>get_client\<close> called twice with no \<^verbatim>\<open>close\<close> in between gives the same handle
  both times: the second call returns the handle of the first and leaves the client and
  the process as they are, so no second handle is constructed.
\<close>

theorem get_client_idempotent:
  "APIClient_get_client c w = (h, c1, w1) \<Longrightarrow>
     fst (APIClient_get_client c1 w1) = h \<and>
     handles_made (snd (snd (APIClient_get_client c1 w1))) = handles_made w1 \<and>
     APIClient_get_client c1 w1 = (h, c1, w1) \<and>
     client c1 = Some h"
  unfolding APIClient_get_client_def by (cases "client c") auto

theorem get_client_idempotent_witness:
  "APIClient_get_client client0 world0
     = (0, client0\<lparr>client := Some 0\<rparr>, world0\<lparr>handles_made := 1\<rparr>) \<and>
   APIClient_get_client (client0\<lparr>client := Some 0\<rparr>) (world0\<lparr>handles_made := 1\<rparr>)
     = (0, client0\<lparr>client := Some 0\<rparr>, world0\<lparr>handles_made := 1\<rparr>)"
proof -
  have h: "APIClient_get_client client0 world0
     = (0, client0\<lparr>client := Some 0\<rparr>, world0\<lparr>handles_made := 1\<rparr>)"
    by (simp add: APIClient_get_client_def client0_def world0_def)
  show ?thesis using h get_client_idempotent [OF h] by simp
qed

text \<open>
  Claim C8. The shutdown hook run twice in a row has no error to raise, and the state
  after the second run is the state after the first: no stored client and no live
  handle, the handle that was live having been closed by the first run. \<^verbatim>\<open>close\<close> on a
  client without a handle changes nothing, and so does a second \<^verbatim>\<open>close\<close>.
\<close>

theorem cleanup_twice:
  "cleanup_api_client (cleanup_api_client w) = cleanup_api_client w \<and>
   cleanup (cleanup w) = cleanup w \<and>
   global_client (cleanup_api_client w) = None \<and>
   live_handle (cleanup_api_client w) = None \<and>
   (live_handle w = Some h \<longrightarrow> closed (cleanup_api_client w) = closed w @ [h]) \<and>
   APIClient_close (fst (APIClient_close c w2)) (snd (APIClient_close c w2))
     = APIClient_close c w2 \<and>
   (client c = None \<longrightarrow> APIClient_close c w2 = (c, w2))"
proof -
  have g: "global_client (cleanup_api_client w) = None"
    by (rule cleanup_global)
  have h: "closed (cleanup_api_client w) = closed w @ [h]" if "live_handle w = Some h"
    using that
    by (cases "global_client w")
       (simp_all add: live_handle_def cleanup_api_client_def APIClient_close_def)
  have twice: "cleanup_api_client (cleanup_api_client w) = cleanup_api_client w"
    using g by (simp add: cleanup_api_client_def [of "cleanup_api_client w"])
  have cl: "APIClient_close (fst (APIClient_close c w2)) (snd (APIClient_close c w2))
              = APIClient_close c w2"
    by (simp add: close_no_handle close_clears)
  show ?thesis
    using g h twice cl by (simp add: cleanup_def live_handle_def close_no_handle)
qed

theorem cleanup_twice_witness:
  "live_handle world_live = Some 0 \<and>
   cleanup_api_client world_live = world_live\<lparr>global_client := None, closed := [0]\<rparr> \<and>
   closed (cleanup_api_client world_live) = closed world_live @ [0] \<and>
   cleanup_api_client (cleanup_api_client world_live) = cleanup_api_client world_live \<and>
   client client0 = None \<and> APIClient_close client0 world0 = (client0, world0)"
proof -
  have l: "live_handle world_live = Some 0"
    by (simp add: live_handle_def world_live_def)
  have e: "cleanup_api_client world_live = world_live\<lparr>global_client := None, closed := [0]\<rparr>"
    by (simp add: cleanup_api_client_def world_live_def APIClient_close_def client0_def)
  have n: "client client0 = None"
    by (simp add: client0_def)
  show ?thesis
    using l e n cleanup_twice [of world_live 0 client0 world0] by simp
qed

section \<open>The required key\<close>

text \<open>
  Claim C6. With \<^verbatim>\<open>API_KEY\<close> absent from the environment, or empty, reading the
  \<^verbatim>\<open>api_key\<close> setting raises the configuration error instead of giving a default, and so
  does the constructor of the client, which reads the key. A process that has no client
  yet therefore gets the error from \<^verbatim>\<open>get_api_client\<close> with its state untouched, and
  every tool ends with the state untouched: no request was sent and no handle was made.
\<close>

theorem missing_api_key_fails_first:
  "environ w ''API_KEY'' = None \<or> environ w ''API_KEY'' = Some [] \<Longrightarrow>
     settings_api_key (environ w) = Inl (Exn ValueError api_key_required) \<and>
     APIClient_init (environ w) = Inl (Exn ValueError api_key_required) \<and>
     (global_client w = None \<longrightarrow>
        get_api_client w = (Inl (Exn ValueError api_key_required), w) \<and>
        snd (search_items net w query limit) = w \<and>
        snd (get_item_details net w item_id) = w \<and>
        snd (list_categories net w) = w \<and>
        snd (get_popular_items net w limit category) = w)"
proof -
  assume a: "environ w ''API_KEY'' = None \<or> environ w ''API_KEY'' = Some []"
  have k: "settings_api_key (environ w) = Inl (Exn ValueError api_key_required)"
    using a by (auto simp: settings_api_key_def)
  have i: "APIClient_init (environ w) = Inl (Exn ValueError api_key_required)"
    by (simp add: APIClient_init_def k)
  have g: "get_api_client w = (Inl (Exn ValueError api_key_required), w)"
    if "global_client w = None"
    using that by (simp add: get_api_client_def i)
  show ?thesis
    using k i g
    by (simp add: search_items_def search_items_body_def get_item_details_def
        get_item_details_body_def list_categories_def list_categories_body_def
        get_popular_items_def get_popular_items_body_def)
qed

theorem missing_api_key_fails_first_witness:
  "environ world_no_key ''API_KEY'' = None \<and>
   global_client world_no_key = None \<and>
   settings_api_key (environ world_no_key) = Inl (Exn ValueError api_key_required) \<and>
   get_api_client world_no_key = (Inl (Exn ValueError api_key_required), world_no_key) \<and>
   snd (search_items net_down world_no_key ''coffee'' 5) = world_no_key \<and>
   environ world_empty_key ''API_KEY'' = Some [] \<and>
   global_client world_empty_key = None \<and>
   settings_api_key (environ world_empty_key) = Inl (Exn ValueError api_key_required) \<and>
   snd (search_items net_down world_empty_key ''coffee'' 5) = world_empty_key"
proof -
  have a: "environ world_no_key ''API_KEY'' = None \<or> environ world_no_key ''API_KEY'' = Some []"
    by (simp add: world_no_key_def)
  have b: "environ world_empty_key ''API_KEY'' = None \<or>
           environ world_empty_key ''API_KEY'' = Some []"
    by (simp add: world_empty_key_def)
  have n: "environ world_no_key ''API_KEY'' = None" "global_client world_no_key = None"
    by (simp_all add: world_no_key_def world0_def)
  have e: "environ world_empty_key ''API_KEY'' = Some []" "global_client world_empty_key = None"
    by (simp_all add: world_empty_key_def world0_def)
  show ?thesis
    using n e
      missing_api_key_fails_first
        [where w = world_no_key and net = net_down and query = "''coffee''" and limit = 5, OF a]
      missing_api_key_fails_first
        [where w = world_empty_key and net = net_down and query = "''coffee''" and limit = 5, OF b]
    by simp
qed

section \<open>Translation of HTTP status errors\<close>

lemma sublist_Not_found: "sublist ''Not found'' (''Not found: '' @ endpoint)"
proof -
  have "''Not found: '' @ endpoint = [] @ ''Not found'' @ ('': '' @ endpoint)"
    by simp
  then show ?thesis
    unfolding sublist_def by blast
qed

lemma sublist_middle: "sublist ys (xs @ ys @ zs)"
  unfolding sublist_def by blast

lemma sublist_end: "sublist ys (xs @ ys)"
  unfolding sublist_def by (metis append_Nil2)

lemma str_int_503: "str_int 503 = ''503''"
  by code_simp

text \<open>
  Claim C2, as the code has it. When the response has a status of 400 or more,
  \<^verbatim>\<open>_make_request\<close> fails with an \<^verbatim>\<open>APIError\<close>, the error class of this program. Its
  message is \<^verbatim>\<open>Not found: <endpoint>\<close> for 404, which holds the words "Not found", with a
  capital N, and the endpoint path as the caller gave it; it names the failed
  authentication for 401 and the rate limit for 429; for every other status it holds the
  decimal status code and the body text of the response.
\<close>

theorem status_errors_become_APIError:
  assumes "400 \<le> st"
    and "net (sent w) (build_request c m endpoint kw) = Response st body js"
  shows "\<exists>msg. fst (APIClient_make_request net c w m endpoint kw) = Inl (Exn APIError msg) \<and>
           (st = 404 \<longrightarrow> msg = ''Not found: '' @ endpoint \<and>
                          sublist ''Not found'' msg \<and> sublist endpoint msg) \<and>
           (st = 401 \<longrightarrow> msg = ''Invalid API key or authentication failed'') \<and>
           (st = 429 \<longrightarrow> msg = ''Rate limit exceeded - try again later'') \<and>
           (st \<noteq> 404 \<and> st \<noteq> 401 \<and> st \<noteq> 429 \<longrightarrow>
              msg = ''API error '' @ str_int st @ '': '' @ body \<and>
              sublist (str_int st) msg \<and> sublist body msg)"
proof -
  have r: "raise_for_status st"
    using assms(1) by (simp add: raise_for_status_def)
  have res: "fst (APIClient_make_request net c w m endpoint kw)
               = Inl (status_error endpoint st body)"
    by (simp add: make_request_result assms(2) request_result_def r)
  have not_found: "sublist endpoint (''Not found: '' @ endpoint)"
    by (rule sublist_end)
  have code: "sublist (str_int st) (''API error '' @ str_int st @ '': '' @ body)"
    by (rule sublist_middle)
  have txt_in: "sublist body (''API error '' @ str_int st @ '': '' @ body)"
    using sublist_end [of body "''API error '' @ str_int st @ '': ''"] by simp
  show ?thesis
    unfolding res status_error_def
    using sublist_Not_found [of endpoint] not_found code txt_in by auto
qed

theorem status_errors_become_APIError_witness:
  "fst (APIClient_make_request (net_status 503 ''down'') client0 world0 ''GET'' ''/search'' None)
     = Inl (Exn APIError ''API error 503: down'') \<and>
   fst (APIClient_make_request (net_status 404 ''gone'') client0 world0 ''GET'' ''/items/7'' None)
     = Inl (Exn APIError ''Not found: /items/7'') \<and>
   fst (APIClient_make_request (net_status 401 []) client0 world0 ''GET'' ''/search'' None)
     = Inl (Exn APIError ''Invalid API key or authentication failed'') \<and>
   fst (APIClient_make_request (net_status 429 []) client0 world0 ''GET'' ''/search'' None)
     = Inl (Exn APIError ''Rate limit exceeded - try again later'')"
proof -
  have a: "(400::int) \<le> 503" "(400::int) \<le> 404" "(400::int) \<le> 401" "(400::int) \<le> 429"
    by simp_all
  have n: "net_status st body (sent world0) (build_request client0 ''GET'' ep None)
             = Response st body (Inl ''Expecting value'')" for st body ep
    by (simp add: net_status_def)
  show ?thesis
    using status_errors_become_APIError
            [where st = 503 and net = "net_status 503 ''down''" and w = world0 and c = client0
               and m = "''GET''" and endpoint = "''/search''" and kw = None, OF a(1) n]
          status_errors_become_APIError
            [where st = 404 and net = "net_status 404 ''gone''" and w = world0 and c = client0
               and m = "''GET''" and endpoint = "''/items/7''" and kw = None, OF a(2) n]
          status_errors_become_APIError
            [where st = 401 and net = "net_status 401 []" and w = world0 and c = client0
               and m = "''GET''" and endpoint = "''/search''" and kw = None, OF a(3) n]
          status_errors_become_APIError
            [where st = 429 and net = "net_status 429 []" and w = world0 and c = client0
               and m = "''GET''" and endpoint = "''/search''" and kw = None, OF a(4) n]
    by (auto simp: str_int_503)
qed

text \<open>
  The claim as the specification words it asks for the words "not found" in the message
  for 404. The message of the code starts with a capital letter, so the lower-case words
  do not occur in it.
\<close>

theorem not_found_lower_case_counterexample:
  "fst (APIClient_make_request (net_status 404 ''gone'') client0 world0 ''GET'' ''/items/7'' None)
     = Inl (Exn APIError ''Not found: /items/7'') \<and>
   \<not> sublist ''not found'' ''Not found: /items/7''"
proof -
  have r: "fst (APIClient_make_request (net_status 404 ''gone'') client0 world0
                  ''GET'' ''/items/7'' None)
             = Inl (Exn APIError ''Not found: /items/7'')"
    by code_simp
  have n: "\<not> sublist ''not found'' ''Not found: /items/7''"
    by code_simp
  show ?thesis
    using r n by simp
qed

section \<open>The tool boundary\<close>

lemma is_Exception_all: "is_Exception k"
  by (cases k) simp_all

lemma except_Exception_Inl: "except_Exception (Inl e) handler = Inr (handler e)"
  by (simp add: except_Exception_def is_Exception_all)

lemma except_Exception_Inr: "except_Exception (Inr v) handler = Inr v"
  by (simp add: except_Exception_def)

lemma except_Exception_returns: "\<exists>v. except_Exception r handler = Inr v"
  by (cases r) (simp_all add: except_Exception_Inl except_Exception_Inr)

lemma fst_search_items:
  "fst (search_items net w query limit) =
     except_Exception (fst (search_items_body net w query limit)) (error_list ''Search failed: '')"
  by (simp add: search_items_def split: prod.splits)

lemma fst_get_item_details:
  "fst (get_item_details net w item_id) =
     except_Exception (fst (get_item_details_body net w item_id))
       (error_dict ''Failed to get item details: '')"
  by (simp add: get_item_details_def split: prod.splits)

lemma fst_list_categories:
  "fst (list_categories net w) =
     except_Exception (fst (list_categories_body net w))
       (error_list ''Failed to list categories: '')"
  by (simp add: list_categories_def split: prod.splits)

lemma fst_get_popular_items:
  "fst (get_popular_items net w limit category) =
     except_Exception (fst (get_popular_items_body net w limit category))
       (error_list ''Failed to get popular items: '')"
  by (simp add: get_popular_items_def split: prod.splits)

lemma snd_get_popular_items:
  "snd (get_popular_items net w limit category) = snd (get_popular_items_body net w limit category)"
  by (simp add: get_popular_items_def split: prod.splits)

lemma get_api_client_ok:
  "fst (get_api_client w) = Inr c \<Longrightarrow> get_api_client w = (Inr c, w\<lparr>global_client := Some c\<rparr>)"
proof (cases "global_client w")
  case None
  assume "fst (get_api_client w) = Inr c"
  with None show ?thesis
    by (cases "APIClient_init (environ w)") (simp_all add: get_api_client_def)
next
  case (Some c')
  assume "fst (get_api_client w) = Inr c"
  with Some have "c' = c"
    by (simp add: get_api_client_def)
  with Some have "w\<lparr>global_client := Some c\<rparr> = w"
    by (cases w) simp
  with Some \<open>c' = c\<close> show ?thesis
    by (simp add: get_api_client_def)
qed

lemma client_world0: "fst (get_api_client world0) = Inr client0"
  by code_simp

lemma body1: "fst (search_items_body net_down world0 ''coffee'' 5)
                = Inl (Exn APIError ''Request failed: timed out'')"
  by code_simp

lemma body2: "fst (get_item_details_body (net_status 200 ''<html>'') world0 ''7'')
                = Inl (Exn JSONDecodeError ''Expecting value'')"
  by code_simp

lemma body3: "fst (list_categories_body (net_json (JArr [])) world0)
                = Inl (no_attribute (JArr []) ''get'')"
  by code_simp

lemma body4: "fst (get_popular_items_body (net_status 500 ''boom'') world0 10 None)
                = Inl (Exn APIError ''API error 500: boom'')"
  by code_simp

text \<open>
  Claim C3. Each of the four tools returns normally on every input and every answer of
  the network, and whenever its body fails (with the error of the API client for a status
  or transport failure, with the decoder's error for a body that is not JSON, with an
  attribute or type error while reshaping, or with the configuration error) the value
  returned is the sentinel that carries the message under \<^verbatim>\<open>error\<close>: a list of one such
  record, or the record itself for \<^verbatim>\<open>get_item_details\<close>.
\<close>

theorem tools_never_raise:
  "(\<exists>v. fst (search_items net w query limit) = Inr v) \<and>
   (\<exists>v. fst (get_item_details net w item_id) = Inr v) \<and>
   (\<exists>v. fst (list_categories net w) = Inr v) \<and>
   (\<exists>v. fst (get_popular_items net w limit category) = Inr v) \<and>
   (\<forall>e. fst (search_items_body net w query limit) = Inl e \<longrightarrow>
      fst (search_items net w query limit)
        = Inr (JArr [JObj [(''error'', JStr (''Search failed: '' @ exn_str e))]])) \<and>
   (\<forall>e. fst (get_item_details_body net w item_id) = Inl e \<longrightarrow>
      fst (get_item_details net w item_id)
        = Inr (JObj [(''error'', JStr (''Failed to get item details: '' @ exn_str e))])) \<and>
   (\<forall>e. fst (list_categories_body net w) = Inl e \<longrightarrow>
      fst (list_categories net w)
        = Inr (JArr [JObj [(''error'', JStr (''Failed to list categories: '' @ exn_str e))]])) \<and>
   (\<forall>e. fst (get_popular_items_body net w limit category) = Inl e \<longrightarrow>
      fst (get_popular_items net w limit category)
        = Inr (JArr [JObj [(''error'', JStr (''Failed to get popular items: '' @ exn_str e))]]))"
  by (simp add: fst_search_items fst_get_item_details fst_list_categories fst_get_popular_items
      except_Exception_returns except_Exception_Inl error_list_def error_dict_def)

theorem tools_never_raise_witness:
  "fst (search_items_body net_down world0 ''coffee'' 5)
     = Inl (Exn APIError ''Request failed: timed out'') \<and>
   fst (search_items net_down world0 ''coffee'' 5)
     = Inr (JArr [JObj [(''error'', JStr ''Search failed: Request failed: timed out'')]]) \<and>
   fst (get_item_details_body (net_status 200 ''<html>'') world0 ''7'')
     = Inl (Exn JSONDecodeError ''Expecting value'') \<and>
   fst (get_item_details (net_status 200 ''<html>'') world0 ''7'')
     = Inr (JObj [(''error'', JStr ''Failed to get item details: Expecting value'')]) \<and>
   fst (list_categories_body (net_json (JArr [])) world0)
     = Inl (no_attribute (JArr []) ''get'') \<and>
   fst (list_categories (net_json (JArr [])) world0)
     = Inr (JArr [JObj [(''error'', JStr (''Failed to list categories: ''
                                          @ exn_str (no_attribute (JArr []) ''get'')))]]) \<and>
   fst (get_popular_items_body (net_status 500 ''boom'') world0 10 None)
     = Inl (Exn APIError ''API error 500: boom'') \<and>
   fst (get_popular_items (net_status 500 ''boom'') world0 10 None)
     = Inr (JArr [JObj [(''error'', JStr ''Failed to get popular items: API error 500: boom'')]])"
  using body1 body2 body3 body4
    tools_never_raise [of net_down world0 "''coffee''" 5 "''7''" None]
    tools_never_raise [of "net_status 200 ''<html>''" world0 "''coffee''" 5 "''7''" None]
    tools_never_raise [of "net_json (JArr [])" world0 "''coffee''" 5 "''7''" None]
    tools_never_raise [of "net_status 500 ''boom''" world0 "''coffee''" 10 "''7''" None]
  by simp

section \<open>Reshaping a search response\<close>

lemma search_items_body_result:
  assumes "fst (get_api_client w) = Inr c"
  shows "fst (search_items_body net w query limit) =
           bind_e (request_result ''/search''
                     (net (sent w) (build_request c ''GET'' ''/search''
                        (Some [(''q'', JStr query), (''limit'', JInt (min limit 50))]))))
                  search_items_reshape"
  unfolding search_items_body_def get_api_client_ok [OF assms] APIClient_search_def
    make_request_unfold
  by simp

lemma reshape_foo:
  "search_items_reshape foo_response =
     Inr (JArr [JObj [(''id'', JStr ''1''), (''title'', JStr ''Foo''), (''description'', JStr []),
                      (''url'', JNull), (''tags'', JArr [])]])"
  by code_simp

lemma request_result_ok:
  "200 \<le> st \<Longrightarrow> st \<le> 299 \<Longrightarrow> request_result ep (Response st body (Inr v)) = Inr v"
  by (simp add: request_result_def raise_for_status_def)

text \<open>
  Claim C4. When the upstream answer to the search request is a success whose JSON is
  \<^verbatim>\<open>{"results":[{"id":"1","name":"Foo"}]}\<close>, \<^verbatim>\<open>search_items\<close> returns exactly one record:
  the id, the name as title, the empty string as description, \<^verbatim>\<open>None\<close> as url and the
  empty list as tags.
\<close>

theorem search_foo_scenario:
  assumes "fst (get_api_client w) = Inr c"
    and "net (sent w) (build_request c ''GET'' ''/search''
           (Some [(''q'', JStr query), (''limit'', JInt (min limit 50))]))
         = Response st body
             (Inr (JObj [(''results'',
                          JArr [JObj [(''id'', JStr ''1''), (''name'', JStr ''Foo'')]])]))"
    and "200 \<le> st" and "st \<le> 299"
  shows "fst (search_items net w query limit) =
           Inr (JArr [JObj [(''id'', JStr ''1''), (''title'', JStr ''Foo''),
                            (''description'', JStr []), (''url'', JNull), (''tags'', JArr [])]])"
proof -
  have "request_result ''/search'' (Response st body (Inr foo_response)) = Inr foo_response"
    using assms(3,4) by (rule request_result_ok)
  then have "fst (search_items_body net w query limit) = search_items_reshape foo_response"
    by (simp add: search_items_body_result [OF assms(1)] assms(2) bind_e_def foo_response_def)
  then show ?thesis
    by (simp add: fst_search_items reshape_foo except_Exception_Inr)
qed

theorem search_foo_scenario_witness:
  "fst (get_api_client world0) = Inr client0 \<and>
   fst (search_items (net_json foo_response) world0 ''coffee'' 200) =
     Inr (JArr [JObj [(''id'', JStr ''1''), (''title'', JStr ''Foo''),
                      (''description'', JStr []), (''url'', JNull), (''tags'', JArr [])]])"
proof -
  have n: "net_json foo_response (sent world0) (build_request client0 ''GET'' ''/search''
             (Some [(''q'', JStr ''coffee''), (''limit'', JInt (min 200 50))]))
           = Response 200 []
               (Inr (JObj [(''results'',
                            JArr [JObj [(''id'', JStr ''1''), (''name'', JStr ''Foo'')]])]))"
    by (simp add: net_json_def foo_response_def)
  have st: "(200::int) \<le> 200" "(200::int) \<le> 299"
    by simp_all
  show ?thesis
    using client_world0
      search_foo_scenario
        [where net = "net_json foo_response" and w = world0 and c = client0
           and query = "''coffee''" and limit = 200, OF client_world0 n st]
    by simp
qed

section \<open>A category that the listing does not have\<close>

lemma find_category_no_match:
  "category \<noteq> [] \<Longrightarrow> none_matches cats category \<Longrightarrow>
     (\<exists>e. find_category cats category = Inl e) \<or> find_category cats category = Inr JNull"
proof (induction cats)
  case Nil
  then show ?case by simp
next
  case (Cons cat cats)
  then have ih: "(\<exists>e. find_category cats category = Inl e) \<or> find_category cats category = Inr JNull"
    and nm: "\<not> name_matches cat category"
    by simp_all
  show ?case
  proof (cases cat)
    case (JObj kvs)
    show ?thesis
    proof (cases "map_of kvs ''name''")
      case None
      with JObj ih Cons.prems(1) show ?thesis
        by (auto simp: bind_e_def lower_def)
    next
      case (Some v)
      with JObj ih nm show ?thesis
        by (cases v) (auto simp: bind_e_def)
    qed
  qed (simp_all add: bind_e_def)
qed

lemma find_category_ok:
  "category \<noteq> [] \<Longrightarrow> none_matches cats category \<Longrightarrow> entries_ok cats \<Longrightarrow>
     find_category cats category = Inr JNull"
proof (induction cats)
  case Nil
  then show ?case by simp
next
  case (Cons cat cats)
  then have ih: "find_category cats category = Inr JNull"
    and nm: "\<not> name_matches cat category" and ok: "category_entry_ok cat"
    by simp_all
  show ?case
  proof (cases cat)
    case (JObj kvs)
    show ?thesis
    proof (cases "map_of kvs ''name''")
      case None
      with JObj ih Cons.prems(1) show ?thesis
        by (auto simp: bind_e_def lower_def)
    next
      case (Some v)
      with JObj ih nm ok show ?thesis
        by (cases v) (auto simp: bind_e_def)
    qed
  qed (use ok in simp_all)
qed

text \<open>What the loop over an iterated value gives when it is not a list of entries.\<close>

lemma find_category_strings:
  "(\<exists>e. find_category (map (\<lambda>x. JStr (f x)) xs) category = Inl e) \<or>
   find_category (map (\<lambda>x. JStr (f x)) xs) category = Inr JNull"
  by (cases xs) (simp_all add: bind_e_def)

lemma find_category_id_no_match:
  assumes "category \<noteq> []" and "none_matches (listed listing) category"
  shows "(\<exists>e. find_category_id listing category = Inl e) \<or>
         find_category_id listing category = Inr JNull"
proof (cases listing)
  case (JObj kvs)
  show ?thesis
  proof (cases "map_of kvs ''results''")
    case None
    with JObj show ?thesis
      by (simp add: find_category_id_def bind_e_def)
  next
    case (Some rs)
    show ?thesis
    proof (cases rs)
      case (JArr cats)
      with JObj Some assms find_category_no_match [of category cats] show ?thesis
        by (simp add: find_category_id_def bind_e_def)
    next
      case (JObj kvs2)
      with \<open>listing = JObj kvs\<close> Some find_category_strings [of fst kvs2 category] show ?thesis
        by (simp add: find_category_id_def bind_e_def)
    next
      case (JStr s)
      with \<open>listing = JObj kvs\<close> Some find_category_strings [of "\<lambda>c. [c]" s category]
      show ?thesis
        by (simp add: find_category_id_def bind_e_def)
    qed (use JObj Some in \<open>simp_all add: find_category_id_def bind_e_def\<close>)
  qed
qed (simp_all add: find_category_id_def bind_e_def)

lemma find_category_id_ok:
  assumes "category \<noteq> []" and "none_matches (listed listing) category" and "listing_ok listing"
  shows "find_category_id listing category = Inr JNull"
proof (cases listing)
  case (JObj kvs)
  show ?thesis
  proof (cases "map_of kvs ''results''")
    case None
    with JObj show ?thesis
      by (simp add: find_category_id_def bind_e_def)
  next
    case (Some rs)
    show ?thesis
    proof (cases rs)
      case (JArr cats)
      with JObj Some assms find_category_ok [of category cats] show ?thesis
        by (simp add: find_category_id_def bind_e_def)
    qed (use JObj Some assms(3) in simp_all)
  qed
qed (use assms(3) in simp_all)


lemma popular_in_category_no_match:
  assumes "category \<noteq> []"
    and "net (sent w) (build_request c ''GET'' ''/categories'' None) = Response st body (Inr listing)"
    and "200 \<le> st" and "st \<le> 299"
    and "none_matches (listed listing) category"
  shows "sent (snd (popular_in_category net c w limit category))
           = sent w @ [build_request c ''GET'' ''/categories'' None] \<and>
         (listing_ok listing \<longrightarrow>
            fst (popular_in_category net c w limit category) = Inr (category_not_found category))"
proof -
  have r: "request_result ''/categories'' (net (sent w) (build_request c ''GET'' ''/categories'' None))
             = Inr listing"
    using assms(2-4) by (simp add: request_result_ok)
  from find_category_id_no_match [OF assms(1) assms(5)]
  consider e where "find_category_id listing category = Inl e"
    | "find_category_id listing category = Inr JNull"
    by blast
  then have s: "sent (snd (popular_in_category net c w limit category))
           = sent w @ [build_request c ''GET'' ''/categories'' None]"
  proof cases
    case 1
    then show ?thesis
      by (simp add: popular_in_category_def APIClient_list_categories_def make_request_unfold r
          bind_e_def store_client_def)
  next
    case 2
    then show ?thesis
      by (simp add: popular_in_category_def APIClient_list_categories_def make_request_unfold r
          bind_e_def store_client_def)
  qed
  have f: "fst (popular_in_category net c w limit category) = Inr (category_not_found category)"
    if "listing_ok listing"
    using find_category_id_ok [OF assms(1) assms(5) that]
    by (simp add: popular_in_category_def APIClient_list_categories_def make_request_unfold r
        bind_e_def)
  show ?thesis
    using s f by simp
qed

text \<open>
  Claim C5, as the code has it. \<^verbatim>\<open>get_popular_items\<close> is called with a category that is
  not the empty string, and the listing request succeeds with a listing in which no entry
  has a name equal to the category up to case. Then the categories request is the only
  request sent, so no items-by-category request goes upstream. When the listing also has
  the expected shape (a dictionary whose \<^verbatim>\<open>results\<close>, if present, is a list of
  dictionaries whose names are strings or absent), the tool returns exactly the one
  record \<^verbatim>\<open>{"error": "Category '<argument>' not found"}\<close>.
\<close>

theorem unknown_category_reported:
  assumes "fst (get_api_client w) = Inr c"
    and "category \<noteq> []"
    and "net (sent w) (build_request c ''GET'' ''/categories'' None) = Response st body (Inr listing)"
    and "200 \<le> st" and "st \<le> 299"
    and "none_matches (listed listing) category"
  shows "(listing_ok listing \<longrightarrow>
           fst (get_popular_items net w limit (Some category))
             = Inr (JArr [JObj [(''error'', JStr (''Category '' @ [CHR 0x27] @ category
                                                   @ [CHR 0x27] @ '' not found''))]])) \<and>
         sent (snd (get_popular_items net w limit (Some category)))
           = sent w @ [build_request c ''GET'' ''/categories'' None]"
proof -
  let ?w1 = "w\<lparr>global_client := Some c\<rparr>"
  have b: "get_popular_items_body net w limit (Some category)
             = popular_in_category net c ?w1 limit category"
    by (simp add: get_popular_items_body_def get_api_client_ok [OF assms(1)] assms(2))
  have n: "net (sent ?w1) (build_request c ''GET'' ''/categories'' None)
             = Response st body (Inr listing)"
    using assms(3) by simp
  from popular_in_category_no_match
         [where net = net and w = ?w1 and c = c and limit = limit, OF assms(2) n assms(4-6)]
  show ?thesis
    by (simp add: fst_get_popular_items snd_get_popular_items b except_Exception_Inr
        category_not_found_def)
qed

theorem unknown_category_reported_witness:
  "fst (get_api_client world0) = Inr client0 \<and>
   none_matches (listed listing_food) ''Drinks'' \<and>
   listing_ok listing_food \<and>
   fst (get_popular_items (net_json listing_food) world0 10 (Some ''Drinks''))
     = Inr (JArr [JObj [(''error'', JStr (''Category '' @ [CHR 0x27] @ ''Drinks''
                                           @ [CHR 0x27] @ '' not found''))]]) \<and>
   sent (snd (get_popular_items (net_json listing_food) world0 10 (Some ''Drinks'')))
     = [build_request client0 ''GET'' ''/categories'' None]"
proof -
  have c: "''Drinks'' \<noteq> []"
    by simp
  have n: "net_json listing_food (sent world0) (build_request client0 ''GET'' ''/categories'' None)
             = Response 200 [] (Inr listing_food)"
    by (simp add: net_json_def)
  have st: "(200::int) \<le> 200" "(200::int) \<le> 299"
    by simp_all
  have m: "none_matches (listed listing_food) ''Drinks''"
    by code_simp
  have ok: "listing_ok listing_food"
    by code_simp
  have s: "sent world0 = []"
    by (simp add: world0_def)
  show ?thesis
    using client_world0 m ok s
      unknown_category_reported
        [where net = "net_json listing_food" and w = world0 and c = client0 and limit = 10,
         OF client_world0 c n st m]
    by simp
qed

text \<open>
  The claim as the specification words it does not ask for the shape of the listing. A
  listing whose only category has \<^verbatim>\<open>null\<close> for its name holds no category with a matching
  name, yet \<^verbatim>\<open>None.lower()\<close> raises inside the loop and the tool returns the sentinel of
  its handler, not the category message.
\<close>

theorem null_name_counterexample:
  "fst (get_api_client world0) = Inr client0 \<and>
   net_json listing_null_name (sent world0) (build_request client0 ''GET'' ''/categories'' None)
     = Response 200 [] (Inr listing_null_name) \<and>
   none_matches (listed listing_null_name) ''Drinks'' \<and>
   fst (get_popular_items (net_json listing_null_name) world0 10 (Some ''Drinks''))
     = Inr (JArr [JObj [(''error'', JStr (''Failed to get popular items: '' @ [CHR 0x27]
              @ ''NoneType'' @ [CHR 0x27] @ '' object has no attribute '' @ [CHR 0x27]
              @ ''lower'' @ [CHR 0x27]))]]) \<and>
   fst (get_popular_items (net_json listing_null_name) world0 10 (Some ''Drinks''))
     \<noteq> Inr (JArr [JObj [(''error'', JStr (''Category '' @ [CHR 0x27] @ ''Drinks''
                                           @ [CHR 0x27] @ '' not found''))]])"
proof -
  have n: "net_json listing_null_name (sent world0)
             (build_request client0 ''GET'' ''/categories'' None)
           = Response 200 [] (Inr listing_null_name)"
    by (simp add: net_json_def)
  have m: "none_matches (listed listing_null_name) ''Drinks''"
    by code_simp
  have r: "fst (get_popular_items (net_json listing_null_name) world0 10 (Some ''Drinks''))
     = Inr (JArr [JObj [(''error'', JStr (''Failed to get popular items: '' @ [CHR 0x27]
              @ ''NoneType'' @ [CHR 0x27] @ '' object has no attribute '' @ [CHR 0x27]
              @ ''lower'' @ [CHR 0x27]))]])"
    by code_simp
  show ?thesis
    using client_world0 n m r by simp
qed

section \<open>Credentials of the shared client\<close>

lemma uses_client_build: "uses_client c (build_request c m ep kw)"
  by (simp add: uses_client_def build_request_def update_conv')

lemma uses_client_cong:
  "base_url c1 = base_url c \<Longrightarrow> api_key c1 = api_key c \<Longrightarrow> uses_client c1 r = uses_client c r"
  by (simp add: uses_client_def)

lemma get_client_creds:
  "base_url (fst (snd (APIClient_get_client c w))) = base_url c \<and>
   api_key (fst (snd (APIClient_get_client c w))) = api_key c"
  by (cases "client c") (simp_all add: APIClient_get_client_def)

lemma close_creds:
  "base_url (fst (APIClient_close c w)) = base_url c \<and>
   api_key (fst (APIClient_close c w)) = api_key c"
  by (cases "client c") (simp_all add: APIClient_close_def)

lemma make_request_creds:
  "base_url (fst (snd (APIClient_make_request net c w m ep kw))) = base_url c \<and>
   api_key (fst (snd (APIClient_make_request net c w m ep kw))) = api_key c"
  by (simp add: make_request_unfold get_client_creds)

text \<open>One request through the shared client, stored back.\<close>

lemma one_request_keeps:
  assumes "APIClient_make_request net c1 w1 m ep kw = (r, c2, w2)"
    and "base_url c1 = base_url c" and "api_key c1 = api_key c"
    and "take (length (sent w)) (sent w1) = sent w"
    and "list_all (uses_client c) (drop (length (sent w)) (sent w1))"
  shows "keeps_credentials c w (store_client c2 w2)"
proof -
  have s: "sent w2 = sent w1 @ [build_request c1 m ep kw]"
    using make_request_sent [of net c1 w1 m ep kw] assms(1) by simp
  have c2: "base_url c2 = base_url c" "api_key c2 = api_key c"
    using make_request_creds [of net c1 w1 m ep kw] assms(1-3) by simp_all
  have u: "uses_client c (build_request c1 m ep kw)"
    using uses_client_build [of c1 m ep kw] uses_client_cong [OF assms(2,3)] by simp
  have len: "length (sent w) \<le> length (sent w1)"
    using arg_cong [OF assms(4), of length] by simp
  show ?thesis
    using s c2 u len assms(4,5)
    by (simp add: keeps_credentials_def store_client_def)
qed

lemma get_api_client_live:
  "global_client w = Some c \<Longrightarrow>
     get_api_client (w\<lparr>environ := env\<rparr>) = (Inr c, w\<lparr>environ := env\<rparr>)"
  by (simp add: get_api_client_def)

lemma snd_search_items:
  "snd (search_items net w query limit) = snd (search_items_body net w query limit)"
  by (simp add: search_items_def split: prod.splits)

lemma snd_get_item_details:
  "snd (get_item_details net w item_id) = snd (get_item_details_body net w item_id)"
  by (simp add: get_item_details_def split: prod.splits)

lemma snd_list_categories:
  "snd (list_categories net w) = snd (list_categories_body net w)"
  by (simp add: list_categories_def split: prod.splits)

lemma search_items_keeps:
  assumes "global_client w = Some c"
  shows "keeps_credentials c w (snd (search_items net (w\<lparr>environ := env\<rparr>) query limit))"
proof -
  obtain r c2 w2 where m: "APIClient_make_request net c (w\<lparr>environ := env\<rparr>) ''GET'' ''/search''
       (Some [(''q'', JStr query), (''limit'', JInt (min limit 50))]) = (r, c2, w2)"
    using prod_cases3 by blast
  have "snd (search_items_body net (w\<lparr>environ := env\<rparr>) query limit) = store_client c2 w2"
    by (simp add: search_items_body_def get_api_client_live [OF assms] APIClient_search_def m)
  then show ?thesis
    using one_request_keeps [OF m refl refl, of w] by (simp add: snd_search_items)
qed

lemma get_item_details_keeps:
  assumes "global_client w = Some c"
  shows "keeps_credentials c w (snd (get_item_details net (w\<lparr>environ := env\<rparr>) item_id))"
proof -
  obtain r c2 w2 where m: "APIClient_make_request net c (w\<lparr>environ := env\<rparr>) ''GET''
       (''/items/'' @ item_id) None = (r, c2, w2)"
    using prod_cases3 by blast
  have "snd (get_item_details_body net (w\<lparr>environ := env\<rparr>) item_id) = store_client c2 w2"
    using m
    by (simp add: get_item_details_body_def get_api_client_live [OF assms]
        APIClient_get_details_def)
  then show ?thesis
    using one_request_keeps [OF m refl refl, of w] by (simp add: snd_get_item_details)
qed

lemma list_categories_keeps:
  assumes "global_client w = Some c"
  shows "keeps_credentials c w (snd (list_categories net (w\<lparr>environ := env\<rparr>)))"
proof -
  obtain r c2 w2 where m: "APIClient_make_request net c (w\<lparr>environ := env\<rparr>) ''GET''
       ''/categories'' None = (r, c2, w2)"
    using prod_cases3 by blast
  have "snd (list_categories_body net (w\<lparr>environ := env\<rparr>)) = store_client c2 w2"
    by (simp add: list_categories_body_def get_api_client_live [OF assms]
        APIClient_list_categories_def m)
  then show ?thesis
    using one_request_keeps [OF m refl refl, of w] by (simp add: snd_list_categories)
qed

lemma popular_general_keeps:
  "keeps_credentials c w (snd (popular_general net c (w\<lparr>environ := env\<rparr>) limit))"
proof -
  obtain r c2 w2 where m: "APIClient_make_request net c (w\<lparr>environ := env\<rparr>) ''GET''
       ''/popular'' (Some [(''limit'', JInt (min limit 50))]) = (r, c2, w2)"
    using prod_cases3 by blast
  have "snd (popular_general net c (w\<lparr>environ := env\<rparr>) limit) = store_client c2 w2"
    by (simp add: popular_general_def APIClient_get_popular_items_def m)
  then show ?thesis
    using one_request_keeps [OF m refl refl, of w] by simp
qed

lemma keeps_unfold:
  "keeps_credentials c w (store_client c2 w2) \<Longrightarrow>
     base_url c2 = base_url c \<and> api_key c2 = api_key c \<and>
     take (length (sent w)) (sent (store_client c2 w2)) = sent w \<and>
     list_all (uses_client c) (drop (length (sent w)) (sent (store_client c2 w2)))"
  by (simp add: keeps_credentials_def store_client_def)

lemma popular_in_category_keeps:
  "keeps_credentials c w (snd (popular_in_category net c (w\<lparr>environ := env\<rparr>) limit category))"
proof -
  obtain r c2 w2 where m: "APIClient_make_request net c (w\<lparr>environ := env\<rparr>) ''GET''
       ''/categories'' None = (r, c2, w2)"
    using prod_cases3 by blast
  have k: "keeps_credentials c w (store_client c2 w2)"
    using one_request_keeps [OF m refl refl, of w] by simp
  show ?thesis
  proof (cases "bind_e r (\<lambda>categories_result. find_category_id categories_result category)")
    case (Inl e)
    with m k show ?thesis
      by (simp add: popular_in_category_def APIClient_list_categories_def)
  next
    case (Inr category_id)
    show ?thesis
    proof (cases "truthy category_id")
      case False
      with Inr m k show ?thesis
        by (simp add: popular_in_category_def APIClient_list_categories_def)
    next
      case True
      obtain r3 c3 w3 where m3: "APIClient_make_request net c2 (store_client c2 w2) ''GET''
           (''/categories/'' @ py_str category_id @ ''/items'')
           (Some [(''limit'', JInt (min limit 50))]) = (r3, c3, w3)"
        using prod_cases3 by blast
      from keeps_unfold [OF k]
      have "keeps_credentials c w (store_client c3 w3)"
        using one_request_keeps [OF m3, of c w] by simp
      with Inr True m m3 show ?thesis
        by (simp add: popular_in_category_def APIClient_list_categories_def
            APIClient_get_items_by_category_def)
    qed
  qed
qed

lemma get_popular_items_keeps:
  assumes "global_client w = Some c"
  shows "keeps_credentials c w (snd (get_popular_items net (w\<lparr>environ := env\<rparr>) limit category))"
proof (cases category)
  case None
  then show ?thesis
    using popular_general_keeps [of c w net env limit]
    by (simp add: snd_get_popular_items get_popular_items_body_def get_api_client_live [OF assms])
next
  case (Some name)
  then show ?thesis
    using popular_general_keeps [of c w net env limit]
      popular_in_category_keeps [of c w net env limit name]
    by (cases "name = []")
       (simp_all add: snd_get_popular_items get_popular_items_body_def
          get_api_client_live [OF assms])
qed

lemma init_reads_settings:
  "APIClient_init env = Inr c \<Longrightarrow>
     base_url c = settings_api_base_url env \<and> settings_api_key env = Inr (api_key c) \<and>
     client c = None"
  by (cases "settings_api_key env") (auto simp: APIClient_init_def)

lemma cleanup_environ: "environ (cleanup_api_client w) = environ w"
proof (cases "global_client w")
  case None
  then show ?thesis by (simp add: cleanup_api_client_def)
next
  case (Some c)
  then show ?thesis
    by (cases "client c") (simp_all add: cleanup_api_client_def APIClient_close_def)
qed

lemma get_api_client_fresh:
  "global_client w = None \<Longrightarrow>
     get_api_client w =
       (case APIClient_init (environ w) of
          Inl e \<Rightarrow> (Inl e, w)
        | Inr c \<Rightarrow> (Inr c, w\<lparr>global_client := Some c\<rparr>))"
  by (simp add: get_api_client_def)


text \<open>
  Claim C10. The constructor of the client reads the base URL and the key from the
  settings, and \<^verbatim>\<open>get_client\<close>, \<^verbatim>\<open>close\<close> and \<^verbatim>\<open>_make_request\<close> (so every method built on it)
  leave both fields as they are. Hence, while the global client exists, a change of the
  environment changes neither the client that \<^verbatim>\<open>get_api_client\<close> returns nor the
  credentials of the requests: every request that a tool sends carries the base URL and
  the key of that client, and the client stored afterwards holds them still. After
  \<^verbatim>\<open>cleanup_api_client\<close> the global is empty, and the next \<^verbatim>\<open>get_api_client\<close> constructs a
  client from the environment of that moment.
\<close>

theorem credentials_fixed_at_construction:
  "(APIClient_init env_init = Inr c_new \<longrightarrow>
      base_url c_new = settings_api_base_url env_init \<and>
      settings_api_key env_init = Inr (api_key c_new)) \<and>
   base_url (fst (snd (APIClient_get_client c w))) = base_url c \<and>
   api_key (fst (snd (APIClient_get_client c w))) = api_key c \<and>
   base_url (fst (APIClient_close c w)) = base_url c \<and>
   api_key (fst (APIClient_close c w)) = api_key c \<and>
   base_url (fst (snd (APIClient_make_request net c w m ep kw))) = base_url c \<and>
   api_key (fst (snd (APIClient_make_request net c w m ep kw))) = api_key c \<and>
   (global_client w = Some c \<longrightarrow>
      get_api_client (w\<lparr>environ := env\<rparr>) = (Inr c, w\<lparr>environ := env\<rparr>) \<and>
      keeps_credentials c w (snd (search_items net (w\<lparr>environ := env\<rparr>) query limit)) \<and>
      keeps_credentials c w (snd (get_item_details net (w\<lparr>environ := env\<rparr>) item_id)) \<and>
      keeps_credentials c w (snd (list_categories net (w\<lparr>environ := env\<rparr>))) \<and>
      keeps_credentials c w
        (snd (get_popular_items net (w\<lparr>environ := env\<rparr>) limit category))) \<and>
   global_client (cleanup_api_client w) = None \<and>
   environ (cleanup_api_client w) = environ w \<and>
   get_api_client (cleanup_api_client w) =
     (case APIClient_init (environ w) of
        Inl e \<Rightarrow> (Inl e, cleanup_api_client w)
      | Inr c1 \<Rightarrow> (Inr c1, (cleanup_api_client w)\<lparr>global_client := Some c1\<rparr>))"
proof -
  have fresh: "get_api_client (cleanup_api_client w) =
     (case APIClient_init (environ w) of
        Inl e \<Rightarrow> (Inl e, cleanup_api_client w)
      | Inr c1 \<Rightarrow> (Inr c1, (cleanup_api_client w)\<lparr>global_client := Some c1\<rparr>))"
    using get_api_client_fresh [OF cleanup_global, of w] by (simp add: cleanup_environ)
  have live: "get_api_client (w\<lparr>environ := env\<rparr>) = (Inr c, w\<lparr>environ := env\<rparr>) \<and>
      keeps_credentials c w (snd (search_items net (w\<lparr>environ := env\<rparr>) query limit)) \<and>
      keeps_credentials c w (snd (get_item_details net (w\<lparr>environ := env\<rparr>) item_id)) \<and>
      keeps_credentials c w (snd (list_categories net (w\<lparr>environ := env\<rparr>))) \<and>
      keeps_credentials c w
        (snd (get_popular_items net (w\<lparr>environ := env\<rparr>) limit category))"
    if "global_client w = Some c"
    using get_api_client_live [OF that] search_items_keeps [OF that]
      get_item_details_keeps [OF that] list_categories_keeps [OF that]
      get_popular_items_keeps [OF that]
    by simp
  have init: "base_url c_new = settings_api_base_url env_init \<and>
      settings_api_key env_init = Inr (api_key c_new)"
    if "APIClient_init env_init = Inr c_new"
    using init_reads_settings [OF that] by simp
  show ?thesis
    using fresh live init get_client_creds [of c w] close_creds [of c w]
      make_request_creds [of net c w m ep kw] cleanup_global [of w] cleanup_environ [of w]
    by blast
qed

lemma init_env0: "APIClient_init env0 = Inr client0"
  by code_simp

lemma sent_after_change:
  "sent (snd (search_items (net_json foo_response) (world_live\<lparr>environ := env_changed\<rparr>)
                ''coffee'' 5)) =
     [\<lparr>http_method = ''GET'', url = ''https://api.example.com/v1/search'',
       params = [(''q'', JStr ''coffee''), (''limit'', JInt 5), (''api_key'', JStr ''secret'')]\<rparr>]"
  by code_simp

lemma fresh_after_cleanup:
  "fst (get_api_client (cleanup_api_client (world_live\<lparr>environ := env_changed\<rparr>))) =
     Inr \<lparr>base_url = ''http://localhost'', api_key = ''other'', client = None\<rparr>"
  by code_simp

theorem credentials_fixed_at_construction_witness:
  "APIClient_init env0 = Inr client0 \<and>
   base_url client0 = settings_api_base_url env0 \<and>
   global_client world_live = Some (client0\<lparr>client := Some 0\<rparr>) \<and>
   get_api_client (world_live\<lparr>environ := env_changed\<rparr>)
     = (Inr (client0\<lparr>client := Some 0\<rparr>), world_live\<lparr>environ := env_changed\<rparr>) \<and>
   keeps_credentials (client0\<lparr>client := Some 0\<rparr>) world_live
     (snd (search_items (net_json foo_response) (world_live\<lparr>environ := env_changed\<rparr>)
             ''coffee'' 5)) \<and>
   sent (snd (search_items (net_json foo_response) (world_live\<lparr>environ := env_changed\<rparr>)
                ''coffee'' 5)) =
     [\<lparr>http_method = ''GET'', url = ''https://api.example.com/v1/search'',
       params = [(''q'', JStr ''coffee''), (''limit'', JInt 5), (''api_key'', JStr ''secret'')]\<rparr>] \<and>
   fst (get_api_client (cleanup_api_client (world_live\<lparr>environ := env_changed\<rparr>))) =
     Inr \<lparr>base_url = ''http://localhost'', api_key = ''other'', client = None\<rparr>"
proof -
  have g: "global_client world_live = Some (client0\<lparr>client := Some 0\<rparr>)"
    by (simp add: world_live_def)
  show ?thesis
    using init_env0 g sent_after_change fresh_after_cleanup
      credentials_fixed_at_construction
        [where env_init = env0 and c_new = client0 and w = world_live
           and c = "client0\<lparr>client := Some 0\<rparr>" and env = env_changed
           and net = "net_json foo_response" and query = "''coffee''" and limit = 5]
    by simp
qed

end
